theory Spec2Isabelle
  imports Main "HOL-Library.Word"
begin

section \<open>Data model of \<open>importlib_resources/abc.py\<close>\<close>

text \<open>
  Exceptions are values: every operation of the layer returns \<open>error + 'a\<close>, with
  \<open>Inl\<close> the exception that the Python code raises.
\<close>

datatype error =
    AttributeError
  | TypeError
  | StopIteration
  | FileNotFoundError
  | IsADirectoryError

type_synonym bytes = "8 word list"

text \<open>
  A provider implements the abstract class \<open>SimpleReader\<close>: the property \<open>package\<close> and
  the methods \<open>child_readers()\<close>, \<open>resources()\<close> and \<open>open_binary(resource)\<close>. A file-like
  object returned by \<open>open_binary\<close> is represented by the bytes it delivers when read to
  completion.
\<close>

datatype SimpleReader =
  SimpleReader
    (package: string)
    (child_readers: "SimpleReader list")
    (resources: "string list")
    (open_binary: "string \<Rightarrow> error + bytes")

text \<open>
  Python objects of the three classes that meet in this layer. Python does not check the
  annotation \<open>reader: SimpleReader\<close>, and \<open>ResourceContainer.iterdir\<close> builds
  \<open>ResourceHandle(self, name)\<close> with the container itself in the \<open>reader\<close> slot, so the
  \<open>reader\<close> field holds an arbitrary object.

  \<^item> \<open>Reader P\<close>: an instance of \<open>TraversableReader\<close> (a \<open>SimpleReader\<close> that also
    inherits \<open>TraversableResources\<close>);
  \<^item> \<open>ResourceContainer r\<close>: an instance with \<open>self.reader = r\<close>;
  \<^item> \<open>ResourceHandle r n\<close>: an instance with \<open>self.reader = r\<close>, \<open>self.name = n\<close>.
\<close>

datatype pyobj =
    Reader SimpleReader
  | ResourceContainer pyobj
  | ResourceHandle pyobj string

text \<open>
  Values a caller can pass as the extra positional and keyword arguments of \<open>open\<close>,
  and the streams that \<open>open\<close> returns: the provider's binary stream, or an
  \<open>io.TextIOWrapper\<close> that the library built around the bytes of some buffer, with the
  remaining positional and keyword arguments it was built with.
\<close>

datatype pyarg =
    NoneArg
  | StrArg string
  | BoolArg bool
  | BufferArg bytes

datatype stream =
    BinaryIO bytes
  | TextIO bytes "pyarg list" "(string \<times> pyarg) list"

section \<open>Attribute lookup\<close>

text \<open>
  An attribute of an instance is found in the instance's own fields or in its class and
  the base classes; otherwise Python raises \<open>AttributeError\<close>. \<open>ResourceContainer\<close>
  defines \<open>reader\<close>, \<open>is_dir\<close>, \<open>is_file\<close>, \<open>iterdir\<close>, \<open>open\<close>, \<open>joinpath\<close>;
  \<open>ResourceHandle\<close> defines \<open>reader\<close>, \<open>name\<close>, \<open>is_file\<close>, \<open>is_dir\<close>, \<open>open\<close>; both
  inherit \<open>read_bytes\<close>, \<open>read_text\<close> and \<open>__truediv__\<close> from \<open>Traversable\<close>, whose base
  \<open>ABC\<close> adds no attribute lookup of its own. Each function below is one attribute
  access of the source, resolved on every class of object.
\<close>

text \<open>\<open>str.split(sep)\<close> for a one-character separator: never the empty list.\<close>

fun split_on :: "char \<Rightarrow> string \<Rightarrow> string list" where
  "split_on c [] = [[]]"
| "split_on c (x # xs) =
     (if x = c then [] # split_on c xs
      else (case split_on c xs of
              [] \<Rightarrow> [[x]]
            | w # ws \<Rightarrow> (x # w) # ws))"

text \<open>\<open>SimpleReader.name\<close>: \<open>self.package.split('.')[-1]\<close>.\<close>

definition SimpleReader_name :: "SimpleReader \<Rightarrow> string" where
  "SimpleReader_name P = last (split_on (CHR ''.'') (package P))"

text \<open>The expression \<open>obj.name\<close>. No class gives a \<open>ResourceContainer\<close> a name.\<close>

fun get_name :: "pyobj \<Rightarrow> error + string" where
  "get_name (Reader P) = Inr (SimpleReader_name P)"
| "get_name (ResourceHandle r n) = Inr n"
| "get_name (ResourceContainer r) = Inl AttributeError"

text \<open>
  The iteration \<open>for name in obj.resources\<close>. On a provider \<open>resources\<close> is a method, and
  the attribute is read without calling it: a bound method is not iterable. The node
  classes have no such attribute.
\<close>

fun iter_resources :: "pyobj \<Rightarrow> error + string list" where
  "iter_resources (Reader P) = Inl TypeError"
| "iter_resources (ResourceContainer r) = Inl AttributeError"
| "iter_resources (ResourceHandle r n) = Inl AttributeError"

text \<open>The call \<open>obj.child_readers()\<close>.\<close>

fun call_child_readers :: "pyobj \<Rightarrow> error + pyobj list" where
  "call_child_readers (Reader P) = Inr (map Reader (child_readers P))"
| "call_child_readers (ResourceContainer r) = Inl AttributeError"
| "call_child_readers (ResourceHandle r n) = Inl AttributeError"

text \<open>The call \<open>obj.open_binary(resource)\<close>.\<close>

fun call_open_binary :: "pyobj \<Rightarrow> string \<Rightarrow> error + stream" where
  "call_open_binary (Reader P) resource = map_sum id BinaryIO (open_binary P resource)"
| "call_open_binary (ResourceContainer r) resource = Inl AttributeError"
| "call_open_binary (ResourceHandle r n) resource = Inl AttributeError"

text \<open>The calls \<open>obj.is_file()\<close> and \<open>obj.is_dir()\<close>.\<close>

fun call_is_file :: "pyobj \<Rightarrow> error + bool" where
  "call_is_file (Reader P) = Inl AttributeError"
| "call_is_file (ResourceContainer r) = Inr False"
| "call_is_file (ResourceHandle r n) = Inr True"

fun call_is_dir :: "pyobj \<Rightarrow> error + bool" where
  "call_is_dir (Reader P) = Inl AttributeError"
| "call_is_dir (ResourceContainer r) = Inr True"
| "call_is_dir (ResourceHandle r n) = Inr False"

text \<open>The call \<open>obj.isfile()\<close>: the classes spell the method \<open>is_file\<close>.\<close>

fun call_isfile :: "pyobj \<Rightarrow> error + bool" where
  "call_isfile (Reader P) = Inl AttributeError"
| "call_isfile (ResourceContainer r) = Inl AttributeError"
| "call_isfile (ResourceHandle r n) = Inl AttributeError"

section \<open>The standard library's text wrapper\<close>

text \<open>
  \<open>io.TextIOWrapper(buffer, encoding=None, errors=None, newline=None, ...)\<close> is not
  code of this repository. What \<open>abc.py\<close> fixes is the call, \<open>io.TextIOWrapper(*args,
  **kwargs)\<close>, and Python's binding of the arguments to the required parameter \<open>buffer\<close>:
  it takes the first positional argument or the keyword \<open>buffer\<close>, and a call that binds
  it twice or not at all raises \<open>TypeError\<close> before the constructor runs. What the
  constructor then does with the bound buffer and the remaining positional and keyword
  arguments (checking them, finding the encoding, asking the buffer whether it is
  readable, building the wrapper or raising) belongs to the library and its version; it
  is the parameter \<open>wrap\<close> of the model. The keyword arguments are a \<open>dict\<close>: an
  association list in which no key is repeated.
\<close>

type_synonym text_wrapper =
  "pyarg \<Rightarrow> pyarg list \<Rightarrow> (string \<times> pyarg) list \<Rightarrow> error + stream"

definition TextIOWrapper ::
  "text_wrapper \<Rightarrow> pyarg list \<Rightarrow> (string \<times> pyarg) list \<Rightarrow> error + stream" where
  "TextIOWrapper wrap args kwargs =
     (case args of
        [] \<Rightarrow>
          (case map_of kwargs ''buffer'' of
             None \<Rightarrow> Inl TypeError
           | Some b \<Rightarrow> wrap b [] (filter (\<lambda>kv. fst kv \<noteq> ''buffer'') kwargs))
      | b # rest \<Rightarrow>
          (case map_of kwargs ''buffer'' of
             None \<Rightarrow> wrap b rest kwargs
           | Some b' \<Rightarrow> Inl TypeError))"

section \<open>\<open>ResourceHandle\<close>\<close>

text \<open>
  \<open>ResourceHandle.open(self, mode='r', *args, **kwargs)\<close>, with \<open>self.reader = reader\<close>
  and \<open>self.name = name\<close>. The provider is asked for the binary stream first, so its
  exception wins; \<open>'b' not in mode\<close> on a string and a one-character pattern is
  membership of the character.

  The class leaves \<open>iterdir\<close> and \<open>joinpath\<close> of \<open>Traversable\<close> abstract, and whether
  the base \<open>ABC\<close> of \<open>_compat\<close> then lets it be instantiated is decided outside
  \<open>abc.py\<close>; the method is modelled on any instance that carries the two fields, of the
  class or of a subclass that completes it.
\<close>

definition ResourceHandle_open ::
  "text_wrapper \<Rightarrow> pyobj \<Rightarrow> string \<Rightarrow> string \<Rightarrow> pyarg list \<Rightarrow> (string \<times> pyarg) list
     \<Rightarrow> error + stream" where
  "ResourceHandle_open wrap reader name mode args kwargs =
     (case call_open_binary reader name of
        Inl e \<Rightarrow> Inl e
      | Inr stream \<Rightarrow>
          if CHR ''b'' \<notin> set mode then TextIOWrapper wrap args kwargs else Inr stream)"

section \<open>\<open>ResourceContainer\<close>\<close>

text \<open>
  \<open>ResourceContainer.iterdir(self)\<close> with \<open>self.reader = reader\<close>. A generator
  expression evaluates the iterable of its first \<open>for\<close> at once, so \<open>self.resources\<close> is
  read when \<open>iterdir\<close> is called, then \<open>self.child_readers()\<close>; the elements of the chain
  are built by total constructors, so the lazy chain is represented by the list of its
  elements.
\<close>

definition ResourceContainer_iterdir :: "pyobj \<Rightarrow> error + pyobj list" where
  "ResourceContainer_iterdir reader =
     (case iter_resources (ResourceContainer reader) of
        Inl e \<Rightarrow> Inl e
      | Inr names \<Rightarrow>
          (case call_child_readers (ResourceContainer reader) of
             Inl e \<Rightarrow> Inl e
           | Inr children \<Rightarrow>
               Inr (map (ResourceHandle (ResourceContainer reader)) names
                    @ map ResourceContainer children)))"

text \<open>\<open>ResourceContainer.open(self, *args, **kwargs)\<close>: \<open>raise IsADirectoryError()\<close>.\<close>

definition ResourceContainer_open ::
  "pyobj \<Rightarrow> pyarg list \<Rightarrow> (string \<times> pyarg) list \<Rightarrow> error + stream" where
  "ResourceContainer_open reader args kwargs = Inl IsADirectoryError"

text \<open>
  \<open>next(traversable for traversable in items if traversable.name == name)\<close>: the first
  element whose \<open>name\<close> equals the argument; reading \<open>name\<close> can raise on the way, and
  \<open>next\<close> without a default raises \<open>StopIteration\<close> on an exhausted generator.
\<close>

fun next_named :: "pyobj list \<Rightarrow> string \<Rightarrow> error + pyobj" where
  "next_named [] name = Inl StopIteration"
| "next_named (t # ts) name =
     (case get_name t of
        Inl e \<Rightarrow> Inl e
      | Inr m \<Rightarrow> if m = name then Inr t else next_named ts name)"

text \<open>\<open>ResourceContainer.joinpath(self, name)\<close>.\<close>

definition ResourceContainer_joinpath :: "pyobj \<Rightarrow> string \<Rightarrow> error + pyobj" where
  "ResourceContainer_joinpath reader name =
     (case ResourceContainer_iterdir reader of
        Inl e \<Rightarrow> Inl e
      | Inr items \<Rightarrow> next_named items name)"

text \<open>
  The call \<open>obj.open(mode, *args, **kwargs)\<close>, dispatched on the class of \<open>obj\<close>; for a
  container the mode is the first of the positional arguments that \<open>open\<close> ignores.
\<close>

fun call_open ::
  "text_wrapper \<Rightarrow> pyobj \<Rightarrow> string \<Rightarrow> pyarg list \<Rightarrow> (string \<times> pyarg) list
     \<Rightarrow> error + stream" where
  "call_open wrap (Reader P) mode args kwargs = Inl AttributeError"
| "call_open wrap (ResourceContainer r) mode args kwargs =
     ResourceContainer_open r (StrArg mode # args) kwargs"
| "call_open wrap (ResourceHandle r n) mode args kwargs =
     ResourceHandle_open wrap r n mode args kwargs"

section \<open>\<open>TraversableReader\<close>: the flat reader over \<open>files()\<close>\<close>

text \<open>
  \<open>TraversableReader.files(self)\<close> is \<open>ResourceContainer(self)\<close>, so in the methods that
  \<open>TraversableReader\<close> inherits from \<open>TraversableResources\<close> the calls
  \<open>self.files().joinpath(x)\<close> and \<open>self.files().iterdir()\<close> are the methods of
  \<open>ResourceContainer\<close> with \<open>reader = self\<close>. What \<open>joinpath\<close> returns is only known at
  run time, so \<open>open\<close>, \<open>isfile\<close> and \<open>name\<close> are dispatched on it.
\<close>

definition files :: "SimpleReader \<Rightarrow> pyobj" where
  "files P = ResourceContainer (Reader P)"


definition resource_path :: "SimpleReader \<Rightarrow> string \<Rightarrow> error + string" where
  "resource_path P resource = Inl FileNotFoundError"

definition is_resource :: "SimpleReader \<Rightarrow> string \<Rightarrow> error + bool" where
  "is_resource P path =
     (case ResourceContainer_joinpath (Reader P) path of
        Inl e \<Rightarrow> Inl e
      | Inr t \<Rightarrow> call_isfile t)"

text \<open>
  \<open>contents\<close> returns the generator \<open>(item.name for item in self.files().iterdir())\<close>;
  \<open>iterdir()\<close> runs when \<open>contents\<close> is called, each \<open>item.name\<close> when the caller reaches
  that element. The generator is represented by the outcomes of its elements, of which a
  consumer sees those up to the first exception.
\<close>

definition contents :: "SimpleReader \<Rightarrow> error + (error + string) list" where
  "contents P =
     (case ResourceContainer_iterdir (Reader P) of
        Inl e \<Rightarrow> Inl e
      | Inr items \<Rightarrow> Inr (map get_name items))"

section \<open>Example providers\<close>

text \<open>
  \<open>pkg\<close> has the one resource \<open>a.txt\<close> holding the bytes of \<open>hi\<close> and no sub-package;
  \<open>top\<close> has the resource \<open>b.bin\<close>, empty, and the sub-package \<open>top.sub\<close>.
\<close>

definition pkg :: SimpleReader where
  "pkg = SimpleReader ''pkg'' [] [''a.txt'']
           (\<lambda>n. if n = ''a.txt'' then Inr [104, 105] else Inl FileNotFoundError)"

definition sub :: SimpleReader where
  "sub = SimpleReader ''top.sub'' [] [] (\<lambda>n. Inl FileNotFoundError)"

definition top :: SimpleReader where
  "top = SimpleReader ''top'' [sub] [''b.bin'']
           (\<lambda>n. if n = ''b.bin'' then Inr [] else Inl FileNotFoundError)"


section \<open>Every directory listing raises\<close>

lemma iter_resources_container: "iter_resources (ResourceContainer r) = Inl AttributeError"
  by simp

lemma iterdir_raises: "ResourceContainer_iterdir r = Inl AttributeError"
  by (simp add: ResourceContainer_iterdir_def)

lemma joinpath_raises: "ResourceContainer_joinpath r name = Inl AttributeError"
  by (simp add: ResourceContainer_joinpath_def iterdir_raises)

lemma call_isfile_raises: "call_isfile t = Inl AttributeError"
  by (cases t) simp_all

section \<open>Claims\<close>

text \<open>
  C6. Calling \<open>open\<close> on a \<open>ResourceContainer\<close> fails with \<open>IsADirectoryError\<close>, for every
  wrapped provider (also one without resources and sub-packages), every mode and every
  further positional and keyword argument, whether the method is called directly or
  reached through the dispatch on a node.
\<close>

theorem container_open_is_a_directory:
  "ResourceContainer_open (Reader P) args kwargs = Inl IsADirectoryError \<and>
   call_open wrap (ResourceContainer (Reader P)) mode args kwargs = Inl IsADirectoryError \<and>
   call_open wrap (files (SimpleReader p [] [] f)) mode args kwargs = Inl IsADirectoryError"
  by (simp add: ResourceContainer_open_def files_def)

text \<open>
  C9. In \<open>ResourceHandle.open\<close> the branch is chosen by \<open>'b' not in mode\<close>: for every mode
  that contains the character \<open>b\<close> the outcome is the provider's \<open>open_binary(name)\<close>
  unchanged, and for every mode without \<open>b\<close> (also an unknown one such as \<open>w\<close>) the
  outcome, once \<open>open_binary\<close> has returned, is that of the call of \<open>io.TextIOWrapper\<close>,
  whatever the library's constructor does.
\<close>

theorem handle_open_branch_on_b:
  "(CHR ''b'' \<in> set mode \<longrightarrow>
      ResourceHandle_open wrap (Reader P) n mode args kwargs
        = map_sum id BinaryIO (open_binary P n)) \<and>
   (CHR ''b'' \<notin> set mode \<longrightarrow>
      ResourceHandle_open wrap (Reader P) n mode args kwargs
        = (case open_binary P n of
             Inl e \<Rightarrow> Inl e
           | Inr b \<Rightarrow> TextIOWrapper wrap args kwargs))"
  by (cases "open_binary P n") (simp_all add: ResourceHandle_open_def)

theorem handle_open_branch_on_b_witness:
  "\<forall>wrap.
     CHR ''b'' \<in> set ''rb'' \<and>
     ResourceHandle_open wrap (Reader pkg) ''a.txt'' ''rb'' [] [] = Inr (BinaryIO [104, 105]) \<and>
     CHR ''b'' \<in> set ''br'' \<and>
     ResourceHandle_open wrap (Reader pkg) ''a.txt'' ''br'' [] [] = Inr (BinaryIO [104, 105]) \<and>
     CHR ''b'' \<in> set ''b'' \<and>
     ResourceHandle_open wrap (Reader pkg) ''a.txt'' ''b'' [] [] = Inr (BinaryIO [104, 105]) \<and>
     CHR ''b'' \<notin> set ''w'' \<and>
     ResourceHandle_open wrap (Reader pkg) ''a.txt'' ''w'' [] [] = Inl TypeError \<and>
     ResourceHandle_open wrap (Reader pkg) ''a.txt'' ''w'' [BufferArg [7]] []
       = wrap (BufferArg [7]) [] []"
proof
  fix wrap :: text_wrapper
  show "CHR ''b'' \<in> set ''rb'' \<and>
     ResourceHandle_open wrap (Reader pkg) ''a.txt'' ''rb'' [] [] = Inr (BinaryIO [104, 105]) \<and>
     CHR ''b'' \<in> set ''br'' \<and>
     ResourceHandle_open wrap (Reader pkg) ''a.txt'' ''br'' [] [] = Inr (BinaryIO [104, 105]) \<and>
     CHR ''b'' \<in> set ''b'' \<and>
     ResourceHandle_open wrap (Reader pkg) ''a.txt'' ''b'' [] [] = Inr (BinaryIO [104, 105]) \<and>
     CHR ''b'' \<notin> set ''w'' \<and>
     ResourceHandle_open wrap (Reader pkg) ''a.txt'' ''w'' [] [] = Inl TypeError \<and>
     ResourceHandle_open wrap (Reader pkg) ''a.txt'' ''w'' [BufferArg [7]] []
       = wrap (BufferArg [7]) [] []"
    using handle_open_branch_on_b [where mode = "''rb''" and P = pkg and n = "''a.txt''"
            and args = "[]" and kwargs = "[]" and wrap = wrap]
          handle_open_branch_on_b [where mode = "''br''" and P = pkg and n = "''a.txt''"
            and args = "[]" and kwargs = "[]" and wrap = wrap]
          handle_open_branch_on_b [where mode = "''b''" and P = pkg and n = "''a.txt''"
            and args = "[]" and kwargs = "[]" and wrap = wrap]
          handle_open_branch_on_b [where mode = "''w''" and P = pkg and n = "''a.txt''"
            and args = "[]" and kwargs = "[]" and wrap = wrap]
          handle_open_branch_on_b [where mode = "''w''" and P = pkg and n = "''a.txt''"
            and args = "[BufferArg [7]]" and kwargs = "[]" and wrap = wrap]
    by (simp add: pkg_def TextIOWrapper_def)
qed


text \<open>
  C1, at the provider \<open>pkg\<close> and its resource \<open>a.txt\<close>: \<open>joinpath\<close> returns no node, it
  raises \<open>AttributeError\<close>, because \<open>iterdir\<close> reads \<open>self.resources\<close> on the container.
  The handle that \<open>iterdir\<close> is written to build, \<open>ResourceHandle(self, name)\<close> with the
  container as reader, could not deliver the bytes either: \<open>open_binary\<close> is looked up on
  the container.
\<close>

theorem joinpath_resource_raises:
  "''a.txt'' \<in> set (resources pkg) \<and>
   open_binary pkg ''a.txt'' = Inr [104, 105] \<and>
   ResourceContainer_joinpath (Reader pkg) ''a.txt'' = Inl AttributeError \<and>
   ResourceHandle_open wrap (ResourceContainer (Reader pkg)) ''a.txt'' ''rb'' [] []
     = Inl AttributeError"
  by (simp add: pkg_def joinpath_raises ResourceHandle_open_def)

text \<open>
  C2, at the file node for \<open>a.txt\<close> of \<open>pkg\<close>: in text mode the wrapper is built from the
  caller's arguments alone. Without a buffer among them the call raises \<open>TypeError\<close>,
  with or without an encoding; with a buffer of the caller's, what comes back is what
  the library makes of that buffer, and the stream of the resource takes no part in it.
\<close>

theorem text_open_drops_binary_stream:
  "call_open_binary (Reader pkg) ''a.txt'' = Inr (BinaryIO [104, 105]) \<and>
   ResourceHandle_open wrap (Reader pkg) ''a.txt'' ''r'' [] [] = Inl TypeError \<and>
   ResourceHandle_open wrap (Reader pkg) ''a.txt'' ''r'' [] [(''encoding'', StrArg ''utf-8'')]
     = Inl TypeError \<and>
   ResourceHandle_open wrap (Reader pkg) ''a.txt'' ''r'' [BufferArg [1, 2, 3]] []
     = wrap (BufferArg [1, 2, 3]) [] []"
  by (simp add: pkg_def ResourceHandle_open_def TextIOWrapper_def)

text \<open>
  C3, at \<open>pkg\<close> and the name \<open>missing\<close>, which is no resource and no sub-package of it:
  \<open>joinpath\<close> raises \<open>AttributeError\<close>, not \<open>FileNotFoundError\<close>. The scan that follows a
  listing ends an unsuccessful search with \<open>StopIteration\<close>.
\<close>

theorem joinpath_missing_raises:
  "''missing'' \<notin> set (resources pkg) \<and>
   child_readers pkg = [] \<and>
   ResourceContainer_joinpath (Reader pkg) ''missing'' = Inl AttributeError \<and>
   ResourceContainer_joinpath (Reader pkg) ''missing'' \<noteq> Inl FileNotFoundError \<and>
   next_named [] ''missing'' = Inl StopIteration"
  by (simp add: pkg_def joinpath_raises)

text \<open>
  C4, at \<open>pkg\<close> and the path \<open>a.txt\<close>: \<open>is_resource\<close> raises \<open>AttributeError\<close> where the
  claim has \<open>True\<close>. Apart from the listing, the method it calls on the joined node,
  \<open>isfile\<close>, exists on no node.
\<close>

theorem is_resource_raises:
  "''a.txt'' \<in> set (resources pkg) \<and>
   is_resource pkg ''a.txt'' = Inl AttributeError \<and>
   call_isfile (ResourceHandle (ResourceContainer (Reader pkg)) ''a.txt'')
     = Inl AttributeError \<and>
   call_is_file (ResourceHandle (ResourceContainer (Reader pkg)) ''a.txt'') = Inr True"
  by (simp add: pkg_def is_resource_def joinpath_raises)

text \<open>
  C5, at \<open>top\<close>, which has one resource and one sub-package: \<open>iterdir\<close> yields no node,
  it raises \<open>AttributeError\<close>.
\<close>

theorem iterdir_top_raises:
  "resources top = [''b.bin''] \<and>
   child_readers top = [sub] \<and>
   ResourceContainer_iterdir (Reader top) = Inl AttributeError"
  by (simp add: top_def iterdir_raises)

text \<open>
  C7, at \<open>top\<close>: \<open>contents\<close> returns no names, it raises \<open>AttributeError\<close> when called.
\<close>

theorem contents_top_raises:
  "contents top = Inl AttributeError"
  by (simp add: contents_def iterdir_raises)

text \<open>
  C8, at \<open>pkg\<close>: neither of two consecutive calls of \<open>iterdir\<close> yields a sequence, each
  raises \<open>AttributeError\<close>.
\<close>

theorem iterdir_twice_raises:
  "(ResourceContainer_iterdir (Reader pkg), ResourceContainer_iterdir (Reader pkg))
     = (Inl AttributeError, Inl AttributeError) \<and>
   (\<forall>xs. ResourceContainer_iterdir (Reader pkg) \<noteq> Inr xs)"
  by (simp add: iterdir_raises)

end
